theory Spec2Isabelle
  imports Main "HOL-Library.Word"
begin

section \<open>generate\_wav.py: text to speech request and WAV container\<close>

text \<open>
  The script sends one request to a speech synthesis service, decodes the base64 audio of
  the answer and writes it to a file behind a 44-byte RIFF/WAVE header. The embedding
  follows \<^verbatim>\<open>generate_wav\<close> and the \<^verbatim>\<open>__main__\<close> block statement by statement.
  Python integers are \<^typ>\<open>int\<close>, \<^verbatim>\<open>bytes\<close> are lists of 8-bit words, every exception
  the program text can raise is a value of \<open>py_error\<close>, and the file system, the open
  file handles and the library calls made so far are an explicit state that each
  operation returns updated. Output printed to the terminal is not part of the state.
  Failures of the operating system while opening or writing the file (permissions, a
  full disk) are outside the model.
\<close>

subsection \<open>Bytes and \<^verbatim>\<open>struct.pack\<close>\<close>

type_synonym byte = "8 word"
type_synonym bytes = "byte list"

datatype py_error =
    StructError
  | TypeError
  | KeyError
  | RequestException
  | JSONDecodeError
  | BinasciiError

text \<open>A bytes literal such as \<^verbatim>\<open>b'RIFF'\<close>: one byte for each ASCII character.\<close>

definition ascii :: "string \<Rightarrow> bytes" where
  "ascii s = map of_char s"

text \<open>The \<open>n\<close> low-order bytes of \<open>v\<close>, least significant first.\<close>

fun le_bytes :: "nat \<Rightarrow> int \<Rightarrow> bytes" where
  "le_bytes 0 v = []"
| "le_bytes (Suc n) v = word_of_int v # le_bytes n (v div 256)"

text \<open>
  \<^verbatim>\<open>struct.pack('<I', v)\<close> and \<^verbatim>\<open>struct.pack('<H', v)\<close>: four and two bytes,
  little-endian, and \<^verbatim>\<open>struct.error\<close> when \<open>v\<close> is outside the range of the format.
\<close>

definition pack_I :: "int \<Rightarrow> py_error + bytes" where
  "pack_I v = (if 0 \<le> v \<and> v \<le> 4294967295 then Inr (le_bytes 4 v) else Inl StructError)"

definition pack_H :: "int \<Rightarrow> py_error + bytes" where
  "pack_H v = (if 0 \<le> v \<and> v \<le> 65535 then Inr (le_bytes 2 v) else Inl StructError)"

subsection \<open>The state: files, open handles, library calls\<close>

datatype call = CallPost | CallJson | CallB64decode | CallOpen string

record world =
  files :: "string \<Rightarrow> bytes option"
  handles :: "string list"
  calls :: "call list"

definition world0 :: world where
  "world0 = \<lparr>files = Map.empty, handles = [], calls = []\<rparr>"

definition log_call :: "call \<Rightarrow> world \<Rightarrow> world" where
  "log_call c w = w\<lparr>calls := calls w @ [c]\<rparr>"

text \<open>\<^verbatim>\<open>open(path, 'wb')\<close> creates the file or truncates it, and holds a handle on it.\<close>

definition open_wb :: "string \<Rightarrow> world \<Rightarrow> world" where
  "open_wb path w =
     (log_call (CallOpen path) w)\<lparr>files := (files w)(path \<mapsto> []), handles := path # handles w\<rparr>"

text \<open>\<^verbatim>\<open>f.write(data)\<close> appends to the file behind the handle.\<close>

definition f_write :: "string \<Rightarrow> bytes \<Rightarrow> world \<Rightarrow> world" where
  "f_write path data w =
     w\<lparr>files := (files w)(path \<mapsto> (case files w path of None \<Rightarrow> data | Some old \<Rightarrow> old @ data))\<rparr>"

definition f_close :: "string \<Rightarrow> world \<Rightarrow> world" where
  "f_close path w = w\<lparr>handles := remove1 path (handles w)\<rparr>"

text \<open>
  The body of the \<^verbatim>\<open>with\<close> block is a sequence of \<^verbatim>\<open>f.write(e)\<close> statements. Each
  argument \<open>e\<close> is evaluated first: when it raises, nothing more is written and the
  exception leaves the block; otherwise its bytes are appended and the next statement
  runs.
\<close>

fun run_writes :: "string \<Rightarrow> (py_error + bytes) list \<Rightarrow> world \<Rightarrow> py_error option \<times> world" where
  "run_writes path [] w = (None, w)"
| "run_writes path (Inl e # rest) w = (Some e, w)"
| "run_writes path (Inr data # rest) w = run_writes path rest (f_write path data w)"

text \<open>
  \<^verbatim>\<open>with open(path, 'wb') as f: body\<close>: the handle is closed when the block is left,
  normally or by an exception, and the exception is passed on.
\<close>

definition with_open_wb ::
  "string \<Rightarrow> (py_error + bytes) list \<Rightarrow> world \<Rightarrow> py_error option \<times> world" where
  "with_open_wb path body w =
     (case run_writes path body (open_wb path w) of (r, w') \<Rightarrow> (r, f_close path w'))"

subsection \<open>The WAV container (lines 64 to 90)\<close>

definition num_channels :: int where
  "num_channels = 1"

definition bits_per_sample :: int where
  "bits_per_sample = 16"

definition byte_rate :: "int \<Rightarrow> int" where
  "byte_rate sample_rate = sample_rate * num_channels * (bits_per_sample div 8)"

definition block_align :: int where
  "block_align = num_channels * (bits_per_sample div 8)"

definition data_size :: "bytes \<Rightarrow> int" where
  "data_size audio_data = int (length audio_data)"

definition file_size :: "bytes \<Rightarrow> int" where
  "file_size audio_data = 36 + data_size audio_data"

text \<open>The arguments of the fourteen \<^verbatim>\<open>f.write\<close> statements, in the order of the source.\<close>

definition wav_writes :: "int \<Rightarrow> bytes \<Rightarrow> (py_error + bytes) list" where
  "wav_writes sample_rate audio_data =
     [Inr (ascii ''RIFF''),
      pack_I (file_size audio_data),
      Inr (ascii ''WAVE''),
      Inr (ascii ''fmt ''),
      pack_I 16,
      pack_H 1,
      pack_H num_channels,
      pack_I sample_rate,
      pack_I (byte_rate sample_rate),
      pack_H block_align,
      pack_H bits_per_sample,
      Inr (ascii ''data''),
      pack_I (data_size audio_data),
      Inr audio_data]"

definition write_wav :: "string \<Rightarrow> int \<Rightarrow> bytes \<Rightarrow> world \<Rightarrow> py_error option \<times> world" where
  "write_wav output_file sample_rate audio_data w =
     with_open_wb output_file (wav_writes sample_rate audio_data) w"

text \<open>
  The byte sequence the encoder produced: the content of the output file when the
  \<^verbatim>\<open>with\<close> block was left normally, nothing when it was left by an exception.
\<close>

definition produced :: "string \<Rightarrow> int \<Rightarrow> bytes \<Rightarrow> world \<Rightarrow> bytes option" where
  "produced output_file sample_rate audio_data w =
     (case write_wav output_file sample_rate audio_data w of
        (None, w') \<Rightarrow> files w' output_file
      | (Some e, w') \<Rightarrow> None)"

subsection \<open>The speech request (lines 16 to 56)\<close>

text \<open>
  A decoded JSON value, as \<^verbatim>\<open>response.json()\<close> returns it. An object is the list of
  its key and value pairs, and numbers are shown as integers: a float takes the same
  branches of the program.
\<close>

datatype json =
    JNull
  | JBool bool
  | JNum int
  | JStr string
  | JArr "json list"
  | JObj "(string \<times> json) list"

record request_data =
  input_text :: string
  voice_languageCode :: string
  voice_name :: string
  voice_ssmlGender :: string
  audioConfig_audioEncoding :: string
  audioConfig_sampleRateHertz :: int

text \<open>
  What the program reads of a response: the status code and the result of
  \<^verbatim>\<open>response.json()\<close>, which raises when the body is not JSON.
\<close>

record response =
  status_code :: int
  json_body :: "py_error + json"

text \<open>
  The surroundings of the program: the answer of \<^verbatim>\<open>requests.post\<close> to a URL and a
  request body (an exception when the call does not complete), the library function
  \<^verbatim>\<open>base64.b64decode\<close>, and the credential that the source holds as a literal.
  The headers and the timeout of the call are constants of the source and do not appear.
\<close>

record env =
  GOOGLE_TTS_API_KEY :: string
  requests_post :: "string \<Rightarrow> request_data \<Rightarrow> py_error + response"
  b64decode :: "json \<Rightarrow> py_error + bytes"

definition GOOGLE_TTS_URL :: "env \<Rightarrow> string" where
  "GOOGLE_TTS_URL env =
     ''https://texttospeech.googleapis.com/v1/text:synthesize?key='' @ GOOGLE_TTS_API_KEY env"

definition make_request_data :: "string \<Rightarrow> int \<Rightarrow> request_data" where
  "make_request_data text_in sample_rate =
     \<lparr>input_text = text_in,
      voice_languageCode = ''en-US'',
      voice_name = ''en-US-Standard-D'',
      voice_ssmlGender = ''NEUTRAL'',
      audioConfig_audioEncoding = ''LINEAR16'',
      audioConfig_sampleRateHertz = sample_rate\<rparr>"

text \<open>
  \<^verbatim>\<open>key in result\<close> on a decoded JSON value: a key of a dict, an element of a list, a
  substring of a string, and \<^verbatim>\<open>TypeError\<close> on a value that is not iterable.
\<close>

fun substring :: "string \<Rightarrow> string \<Rightarrow> bool" where
  "substring k [] = (k = [])"
| "substring k (c # cs) = (take (length k) (c # cs) = k \<or> substring k cs)"

fun py_in :: "string \<Rightarrow> json \<Rightarrow> py_error + bool" where
  "py_in k (JObj kvs) = Inr (k \<in> set (map fst kvs))"
| "py_in k (JArr xs) = Inr (JStr k \<in> set xs)"
| "py_in k (JStr s) = Inr (substring k s)"
| "py_in k JNull = Inl TypeError"
| "py_in k (JBool b) = Inl TypeError"
| "py_in k (JNum n) = Inl TypeError"

text \<open>\<^verbatim>\<open>result[key]\<close> with a string key: the value in a dict, \<^verbatim>\<open>TypeError\<close> elsewhere.\<close>

fun py_getitem :: "json \<Rightarrow> string \<Rightarrow> py_error + json" where
  "py_getitem (JObj kvs) k = (case map_of kvs k of None \<Rightarrow> Inl KeyError | Some v \<Rightarrow> Inr v)"
| "py_getitem (JArr xs) k = Inl TypeError"
| "py_getitem (JStr s) k = Inl TypeError"
| "py_getitem JNull k = Inl TypeError"
| "py_getitem (JBool b) k = Inl TypeError"
| "py_getitem (JNum n) k = Inl TypeError"

text \<open>
  \<^verbatim>\<open>generate_wav(text, output_file, sample_rate)\<close>: \<open>Inr True\<close> and \<open>Inr False\<close> are
  the two return values, \<open>Inl e\<close> is an exception that leaves the function.
\<close>

definition generate_wav ::
  "env \<Rightarrow> string \<Rightarrow> string \<Rightarrow> int \<Rightarrow> world \<Rightarrow> (py_error + bool) \<times> world" where
  "generate_wav env text_in output_file sample_rate w =
     (let request = make_request_data text_in sample_rate;
          w1 = log_call CallPost w
      in (case requests_post env (GOOGLE_TTS_URL env) request of
            Inl e \<Rightarrow> (Inl e, w1)
          | Inr response \<Rightarrow>
             (if status_code response \<noteq> 200 then (Inr False, w1)
              else
                (let w2 = log_call CallJson w1
                 in (case json_body response of
                       Inl e \<Rightarrow> (Inl e, w2)
                     | Inr result \<Rightarrow>
                        (case py_in ''audioContent'' result of
                           Inl e \<Rightarrow> (Inl e, w2)
                         | Inr False \<Rightarrow> (Inr False, w2)
                         | Inr True \<Rightarrow>
                            (case py_getitem result ''audioContent'' of
                               Inl e \<Rightarrow> (Inl e, w2)
                             | Inr content \<Rightarrow>
                                (let w3 = log_call CallB64decode w2
                                 in (case b64decode env content of
                                       Inl e \<Rightarrow> (Inl e, w3)
                                     | Inr audio_data \<Rightarrow>
                                        (case write_wav output_file sample_rate audio_data w3 of
                                           (Some e, w4) \<Rightarrow> (Inl e, w4)
                                         | (None, w4) \<Rightarrow> (Inr True, w4)))))))))))"

subsection \<open>The command line (lines 99 to 109)\<close>

definition main_text :: "string list \<Rightarrow> string" where
  "main_text argv = (if length argv > 1 then argv ! 1 else ''Nap home'')"

definition main_output_file :: "string list \<Rightarrow> string" where
  "main_output_file argv = (if length argv > 2 then argv ! 2 else ''offline_welcome.wav'')"

text \<open>
  The exit status of the process and the state it leaves: \<^verbatim>\<open>sys.exit(0 if success else 1)\<close>,
  and status 1 when an exception reaches the top level.
\<close>

definition main :: "env \<Rightarrow> string list \<Rightarrow> world \<Rightarrow> int \<times> world" where
  "main env argv w =
     (case generate_wav env (main_text argv) (main_output_file argv) 44100 w of
        (Inr success, w') \<Rightarrow> (if success then 0 else 1, w')
      | (Inl e, w') \<Rightarrow> (1, w'))"

subsection \<open>Reading a byte sequence back\<close>

text \<open>The unsigned integer that a little-endian byte sequence stands for.\<close>

fun le_uint :: "bytes \<Rightarrow> int" where
  "le_uint [] = 0"
| "le_uint (b # bs) = uint b + 256 * le_uint bs"

text \<open>The \<open>n\<close> bytes at offset \<open>off\<close>, and their value as an unsigned integer.\<close>

definition field :: "nat \<Rightarrow> nat \<Rightarrow> bytes \<Rightarrow> bytes" where
  "field off n bs = take n (drop off bs)"

definition uint_field :: "nat \<Rightarrow> nat \<Rightarrow> bytes \<Rightarrow> int" where
  "uint_field off n bs = le_uint (field off n bs)"

text \<open>
  What a sequence of write statements leaves behind: the bytes of the statements before
  the first one that raises, and the exception of that one.
\<close>

fun accepted :: "(py_error + bytes) list \<Rightarrow> bytes" where
  "accepted [] = []"
| "accepted (Inl e # rest) = []"
| "accepted (Inr data # rest) = data @ accepted rest"

fun first_error :: "(py_error + bytes) list \<Rightarrow> py_error option" where
  "first_error [] = None"
| "first_error (Inl e # rest) = Some e"
| "first_error (Inr data # rest) = first_error rest"

subsection \<open>The specification's side: parameters, layout, header reader\<close>

text \<open>
  The data model of the specification: a positive sample rate, one channel, 16 bits per
  sample. The source has the last two as the constants \<open>num_channels\<close> and
  \<open>bits_per_sample\<close>, and the sample rate as the argument of \<^verbatim>\<open>generate_wav\<close>.
\<close>

record audio_parameters =
  sampleRateHz :: int
  channelCount :: int
  bitsPerSample :: int

definition valid_parameters :: "audio_parameters \<Rightarrow> bool" where
  "valid_parameters ap =
     (0 < sampleRateHz ap \<and> channelCount ap = 1 \<and> bitsPerSample ap = 16)"

text \<open>
  The layout of section 4.2 of the specification, written from its fourteen items and
  independently of \<open>wav_writes\<close>: unsigned little-endian integers of 16 and 32 bits
  byte by byte, and the fields concatenated in order.
\<close>

definition spec_uint16_le :: "int \<Rightarrow> bytes" where
  "spec_uint16_le v = [word_of_int (v mod 256), word_of_int (v div 256 mod 256)]"

definition spec_uint32_le :: "int \<Rightarrow> bytes" where
  "spec_uint32_le v =
     [word_of_int (v mod 256), word_of_int (v div 256 mod 256),
      word_of_int (v div 65536 mod 256), word_of_int (v div 16777216 mod 256)]"

definition spec_wav :: "audio_parameters \<Rightarrow> bytes \<Rightarrow> bytes" where
  "spec_wav ap pcm =
     ascii ''RIFF'' @
     spec_uint32_le (36 + int (length pcm)) @
     ascii ''WAVE'' @
     ascii ''fmt '' @
     spec_uint32_le 16 @
     spec_uint16_le 1 @
     spec_uint16_le (channelCount ap) @
     spec_uint32_le (sampleRateHz ap) @
     spec_uint32_le (sampleRateHz ap * channelCount ap * (bitsPerSample ap div 8)) @
     spec_uint16_le (channelCount ap * (bitsPerSample ap div 8)) @
     spec_uint16_le (bitsPerSample ap) @
     ascii ''data'' @
     spec_uint32_le (int (length pcm)) @
     pcm"

text \<open>
  A reader of the 44-byte header laid out in section 4.2: it checks the four tags, the
  format-chunk size and the format code, and returns the audio parameters and the
  data-chunk size found at their offsets.
\<close>

definition spec_parse_header :: "bytes \<Rightarrow> (audio_parameters \<times> int) option" where
  "spec_parse_header bs =
     (if 44 \<le> length bs \<and>
         field 0 4 bs = ascii ''RIFF'' \<and>
         field 8 4 bs = ascii ''WAVE'' \<and>
         field 12 4 bs = ascii ''fmt '' \<and>
         uint_field 16 4 bs = 16 \<and>
         uint_field 20 2 bs = 1 \<and>
         field 36 4 bs = ascii ''data''
      then Some (\<lparr>sampleRateHz = uint_field 24 4 bs,
                  channelCount = uint_field 22 2 bs,
                  bitsPerSample = uint_field 34 2 bs\<rparr>,
                 uint_field 40 4 bs)
      else None)"

text \<open>A response body has a field when it is a JSON object with that key.\<close>

fun has_field :: "string \<Rightarrow> json \<Rightarrow> bool" where
  "has_field k (JObj kvs) = (k \<in> set (map fst kvs))"
| "has_field k (JArr xs) = False"
| "has_field k (JStr s) = False"
| "has_field k JNull = False"
| "has_field k (JBool b) = False"
| "has_field k (JNum n) = False"

definition lacks_audioContent :: "response \<Rightarrow> bool" where
  "lacks_audioContent r =
     (case json_body r of Inl e \<Rightarrow> True | Inr j \<Rightarrow> \<not> has_field ''audioContent'' j)"

text \<open>
  The three failures of the speech request: the call does not complete, the status is
  not 200, the answer has no \<^verbatim>\<open>audioContent\<close> field.
\<close>

definition request_failed :: "py_error + response \<Rightarrow> bool" where
  "request_failed outcome =
     (case outcome of
        Inl e \<Rightarrow> True
      | Inr r \<Rightarrow> status_code r \<noteq> 200 \<or> lacks_audioContent r)"

text \<open>A service that gives the same answer to every request, for the worked examples.\<close>

definition fixed_env :: "py_error + response \<Rightarrow> env" where
  "fixed_env outcome =
     \<lparr>GOOGLE_TTS_API_KEY = ''key'',
      requests_post = (\<lambda>url body. outcome),
      b64decode = (\<lambda>content. Inl BinasciiError)\<rparr>"

text \<open>Two answers of the service: status 200 without the field, and status 403.\<close>

definition response_without_audio :: response where
  "response_without_audio =
     \<lparr>status_code = 200,
      json_body = Inr (JObj [(''error'', JObj [(''code'', JNum 400), (''status'', JStr ''INVALID'')])])\<rparr>"

definition response_forbidden :: response where
  "response_forbidden =
     \<lparr>status_code = 403, json_body = Inr (JObj [(''audioContent'', JStr ''AAAA'')])\<rparr>"

section \<open>Properties\<close>

subsection \<open>Little-endian fields\<close>

lemma length_le_bytes [simp]: "length (le_bytes n v) = n"
  by (induction n arbitrary: v) auto

lemma le_uint_le_bytes: "0 \<le> v \<Longrightarrow> v < 256 ^ n \<Longrightarrow> le_uint (le_bytes n v) = v"
proof (induction n arbitrary: v)
  case 0
  then show ?case by simp
next
  case (Suc n)
  have "v div 256 < 256 ^ n"
    using Suc.prems by (simp add: div_less_iff_less_mult)
  moreover have "0 \<le> v div 256"
    using Suc.prems by simp
  ultimately have "le_uint (le_bytes n (v div 256)) = v div 256"
    by (rule Suc.IH [rotated])
  moreover have "uint (word_of_int v :: byte) = v mod 256"
    by (simp add: uint_word_of_int)
  ultimately show ?case by simp
qed

lemma word8_mod: "(word_of_int (v mod 256) :: byte) = word_of_int v"
  by (simp add: word_eq_iff_unsigned [where ?'a = int] uint_word_of_int take_bit_eq_mod)

lemma le_bytes_4: "le_bytes 4 v = spec_uint32_le v"
  by (simp add: numeral_eq_Suc spec_uint32_le_def word8_mod zdiv_zmult2_eq [symmetric])

lemma le_bytes_2: "le_bytes 2 v = spec_uint16_le v"
  by (simp add: numeral_eq_Suc spec_uint16_le_def word8_mod)

subsection \<open>The write block\<close>

lemma run_writes_fst: "fst (run_writes p ws w) = first_error ws"
  by (induction p ws w rule: run_writes.induct) auto


lemma run_writes_file:
  "files w p = Some old \<Longrightarrow> files (snd (run_writes p ws w)) p = Some (old @ accepted ws)"
  by (induction p ws w arbitrary: old rule: run_writes.induct) (auto simp: f_write_def)

lemma write_wav_fst: "fst (write_wav p sr pcm w) = first_error (wav_writes sr pcm)"
  by (simp add: write_wav_def with_open_wb_def split_beta run_writes_fst)

lemma write_wav_file:
  "files (snd (write_wav p sr pcm w)) p = Some (accepted (wav_writes sr pcm))"
  using run_writes_file [of "open_wb p w" p "[]" "wav_writes sr pcm"]
  by (simp add: write_wav_def with_open_wb_def split_beta f_close_def open_wb_def log_call_def)


lemma produced_eq:
  "produced p sr pcm w =
     (if first_error (wav_writes sr pcm) = None then Some (accepted (wav_writes sr pcm))
      else None)"
  using write_wav_fst [of p sr pcm w] write_wav_file [of p sr pcm w]
  by (cases "write_wav p sr pcm w") (auto simp: produced_def)

lemma wav_writes_ok:
  assumes "0 \<le> sr" "sr < 2147483648" "int (length pcm) + 36 < 4294967296"
  shows "wav_writes sr pcm =
     [Inr (ascii ''RIFF''), Inr (le_bytes 4 (36 + int (length pcm))), Inr (ascii ''WAVE''),
      Inr (ascii ''fmt ''), Inr (le_bytes 4 16), Inr (le_bytes 2 1), Inr (le_bytes 2 1),
      Inr (le_bytes 4 sr), Inr (le_bytes 4 (sr * 2)), Inr (le_bytes 2 2), Inr (le_bytes 2 16),
      Inr (ascii ''data''), Inr (le_bytes 4 (int (length pcm))), Inr pcm]"
  using assms
  by (simp add: wav_writes_def pack_I_def pack_H_def file_size_def data_size_def byte_rate_def
      block_align_def num_channels_def bits_per_sample_def)

lemma produced_ok:
  assumes "0 \<le> sr" "sr < 2147483648" "int (length pcm) + 36 < 4294967296"
  shows "produced p sr pcm w = Some (
      ascii ''RIFF'' @ le_bytes 4 (36 + int (length pcm)) @ ascii ''WAVE'' @
      ascii ''fmt '' @ le_bytes 4 16 @ le_bytes 2 1 @ le_bytes 2 1 @
      le_bytes 4 sr @ le_bytes 4 (sr * 2) @ le_bytes 2 2 @ le_bytes 2 16 @
      ascii ''data'' @ le_bytes 4 (int (length pcm)) @ pcm)"
  by (simp add: produced_eq wav_writes_ok [OF assms])

subsection \<open>Fields of a produced file\<close>

lemma produced_fields:
  assumes "0 \<le> sr" "sr < 2147483648" "int (length pcm) + 36 < 4294967296"
    and "produced p sr pcm w = Some bs"
  shows "length bs = length pcm + 44"
    and "field 0 4 bs = ascii ''RIFF''"
    and "field 4 4 bs = le_bytes 4 (36 + int (length pcm))"
    and "field 8 4 bs = ascii ''WAVE''"
    and "field 12 4 bs = ascii ''fmt ''"
    and "field 16 4 bs = le_bytes 4 16"
    and "field 20 2 bs = le_bytes 2 1"
    and "field 22 2 bs = le_bytes 2 1"
    and "field 24 4 bs = le_bytes 4 sr"
    and "field 28 4 bs = le_bytes 4 (sr * 2)"
    and "field 32 2 bs = le_bytes 2 2"
    and "field 34 2 bs = le_bytes 2 16"
    and "field 36 4 bs = ascii ''data''"
    and "field 40 4 bs = le_bytes 4 (int (length pcm))"
    and "drop 44 bs = pcm"
  using assms(4) unfolding produced_ok [OF assms(1-3)] field_def
  by (auto simp: ascii_def)

lemma uint32_field:
  "0 \<le> v \<Longrightarrow> v < 4294967296 \<Longrightarrow> field off 4 bs = le_bytes 4 v \<Longrightarrow>
   uint_field off 4 bs = v"
  by (simp add: uint_field_def le_uint_le_bytes)

lemma uint16_field:
  "0 \<le> v \<Longrightarrow> v < 65536 \<Longrightarrow> field off 2 bs = le_bytes 2 v \<Longrightarrow>
   uint_field off 2 bs = v"
  by (simp add: uint_field_def le_uint_le_bytes)


lemma produced_Some_bounds:
  assumes "produced p sr pcm w = Some bs"
  shows "0 \<le> sr \<and> sr < 2147483648 \<and> int (length pcm) + 36 < 4294967296"
proof -
  have "first_error (wav_writes sr pcm) = None"
    using assms by (simp add: produced_eq split: if_splits)
  then show ?thesis
    by (simp add: wav_writes_def pack_I_def pack_H_def file_size_def data_size_def
        byte_rate_def block_align_def num_channels_def bits_per_sample_def split: if_splits)
qed

lemma parse_produced:
  assumes "0 \<le> sr" "sr < 2147483648" "int (length pcm) + 36 < 4294967296"
    and "produced p sr pcm w = Some bs"
  shows "spec_parse_header bs =
           Some (\<lparr>sampleRateHz = sr, channelCount = 1, bitsPerSample = 16\<rparr>, int (length pcm))"
proof -
  note f = produced_fields [OF assms]
  have "uint_field 16 4 bs = 16"
    by (intro uint32_field f(6)) simp_all
  moreover have "uint_field 20 2 bs = 1"
    by (intro uint16_field f(7)) simp_all
  moreover have "uint_field 22 2 bs = 1"
    by (intro uint16_field f(8)) simp_all
  moreover have "uint_field 24 4 bs = sr"
    using assms(1,2) by (intro uint32_field f(9)) simp_all
  moreover have "uint_field 34 2 bs = 16"
    by (intro uint16_field f(12)) simp_all
  moreover have "uint_field 40 4 bs = int (length pcm)"
    using assms(3) by (intro uint32_field f(14)) simp_all
  ultimately show ?thesis
    by (simp add: spec_parse_header_def f(1,2,4,5,13))
qed

subsection \<open>The layout of the file\<close>

text \<open>
  C1, as amended. For audio parameters with one channel, 16 bits per sample and a positive
  sample rate below \<open>2^31\<close>, and a PCM buffer of length \<open>L\<close> with \<open>L + 36 < 2^32\<close>, the
  encoder produces exactly the fourteen fields of the canonical 44-byte-header layout, in
  order, followed by the PCM buffer unchanged. The two bounds are those under which the
  byte rate and the RIFF size fit their unsigned 32-bit fields.
\<close>

theorem wav_layout:
  assumes "valid_parameters ap" and "sampleRateHz ap < 2147483648"
    and "int (length pcm) + 36 < 4294967296"
  shows "produced output_file (sampleRateHz ap) pcm w = Some (spec_wav ap pcm)"
proof -
  have "0 \<le> sampleRateHz ap" "channelCount ap = 1" "bitsPerSample ap = 16"
    using assms(1) by (simp_all add: valid_parameters_def)
  then show ?thesis
    using assms(2,3) by (simp add: produced_ok spec_wav_def le_bytes_4 le_bytes_2)
qed

theorem wav_layout_witness:
  "valid_parameters \<lparr>sampleRateHz = 44100, channelCount = 1, bitsPerSample = 16\<rparr> \<and>
   (44100 :: int) < 2147483648 \<and>
   int (length [1, 2, 3, 4 :: byte]) + 36 < 4294967296 \<and>
   produced ''offline_welcome.wav'' 44100 [1, 2, 3, 4] world0 =
     Some [82, 73, 70, 70, 40, 0, 0, 0, 87, 65, 86, 69, 102, 109, 116, 32, 16, 0, 0, 0,
           1, 0, 1, 0, 68, 172, 0, 0, 136, 88, 1, 0, 2, 0, 16, 0, 100, 97, 116, 97,
           4, 0, 0, 0, 1, 2, 3, 4]"
  using wav_layout [of "\<lparr>sampleRateHz = 44100, channelCount = 1, bitsPerSample = 16\<rparr>"
      "[1, 2, 3, 4]" "''offline_welcome.wav''" world0]
  by (simp add: valid_parameters_def spec_wav_def spec_uint32_le_def spec_uint16_le_def
      ascii_def)

text \<open>
  The claim as stated, for any positive sample rate and any buffer, fails: at the sample
  rate \<open>2^31\<close> the byte rate \<open>2^32\<close> does not fit its field, and with a buffer of
  \<open>2^32 - 36\<close> bytes the RIFF size does not; \<^verbatim>\<open>struct.pack\<close> raises and no WAV byte
  sequence is produced.
\<close>

theorem wav_layout_counterexample:
  "valid_parameters \<lparr>sampleRateHz = 2147483648, channelCount = 1, bitsPerSample = 16\<rparr> \<and>
   produced ''offline_welcome.wav'' 2147483648 [] world0 \<noteq>
     Some (spec_wav \<lparr>sampleRateHz = 2147483648, channelCount = 1, bitsPerSample = 16\<rparr> []) \<and>
   produced ''offline_welcome.wav'' 2147483648 [] world0 = None \<and>
   produced ''offline_welcome.wav'' 44100 (replicate 4294967260 0) world0 = None"
  by (simp add: produced_eq valid_parameters_def wav_writes_def pack_I_def pack_H_def
      file_size_def data_size_def byte_rate_def block_align_def num_channels_def
      bits_per_sample_def)

text \<open>
  C2, as amended. For every valid AudioParameters with a sample rate below \<open>2^31\<close> and every
  PCM buffer of length \<open>L\<close> with \<open>L + 36 < 2^32\<close>, the encoder produces a byte sequence of
  total length \<open>L + 44\<close> whose bytes at offsets 4 to 7, read as an unsigned 32-bit
  little-endian integer, equal \<open>L + 36\<close>.
\<close>

theorem wav_length_and_riff_size:
  assumes "valid_parameters ap" and "sampleRateHz ap < 2147483648"
    and "int (length pcm) + 36 < 4294967296"
  shows "map_option length (produced output_file (sampleRateHz ap) pcm w) =
           Some (length pcm + 44) \<and>
         map_option (uint_field 4 4) (produced output_file (sampleRateHz ap) pcm w) =
           Some (int (length pcm) + 36)"
proof -
  have sr: "0 \<le> sampleRateHz ap"
    using assms(1) by (simp add: valid_parameters_def)
  obtain bs where bs: "produced output_file (sampleRateHz ap) pcm w = Some bs"
    using produced_ok [OF sr assms(2,3)] by blast
  have "length bs = length pcm + 44"
    by (rule produced_fields(1) [OF sr assms(2,3) bs])
  moreover have "uint_field 4 4 bs = 36 + int (length pcm)"
    using assms(3) by (intro uint32_field produced_fields(3) [OF sr assms(2,3) bs]) simp_all
  ultimately show ?thesis
    by (simp add: bs)
qed

theorem wav_length_and_riff_size_witness:
  "valid_parameters \<lparr>sampleRateHz = 22050, channelCount = 1, bitsPerSample = 16\<rparr> \<and>
   (22050 :: int) < 2147483648 \<and>
   int (length [7, 0, 9, 0, 11, 0 :: byte]) + 36 < 4294967296 \<and>
   map_option length (produced ''a.wav'' 22050 [7, 0, 9, 0, 11, 0] world0) = Some 50 \<and>
   map_option (uint_field 4 4) (produced ''a.wav'' 22050 [7, 0, 9, 0, 11, 0] world0) = Some 42"
  using wav_length_and_riff_size [of "\<lparr>sampleRateHz = 22050, channelCount = 1, bitsPerSample = 16\<rparr>"
      "[7, 0, 9, 0, 11, 0]" "''a.wav''" world0]
  by (simp add: valid_parameters_def)

text \<open>
  Without the bounds the statement fails. At the sample rate \<open>2^31\<close> the write of the
  byte rate raises \<^verbatim>\<open>struct.error\<close> and the file is left with the 28 bytes written
  before it, whatever the length of the buffer; a buffer of \<open>2^32 - 36\<close> bytes stops the
  encoder at the RIFF size.
\<close>

theorem wav_length_and_riff_size_counterexample:
  "valid_parameters \<lparr>sampleRateHz = 2147483648, channelCount = 1, bitsPerSample = 16\<rparr> \<and>
   map_option length (produced ''a.wav'' 2147483648 [7, 0] world0) \<noteq> Some (length [7, 0 :: byte] + 44) \<and>
   fst (write_wav ''a.wav'' 2147483648 [7, 0] world0) = Some StructError \<and>
   map_option length (files (snd (write_wav ''a.wav'' 2147483648 [7, 0] world0)) ''a.wav'') = Some 28 \<and>
   map_option length (produced ''a.wav'' 44100 (replicate 4294967260 0) world0) \<noteq>
     Some (length (replicate 4294967260 (0 :: byte)) + 44)"
  by (simp add: produced_eq write_wav_fst write_wav_file valid_parameters_def wav_writes_def
      pack_I_def pack_H_def file_size_def data_size_def byte_rate_def block_align_def
      num_channels_def bits_per_sample_def ascii_def)

subsection \<open>Reading the header back\<close>

text \<open>
  C3, as amended. Round trip: for every valid AudioParameters with a sample rate below
  \<open>2^31\<close> and every PCM buffer of length \<open>L\<close> with \<open>L + 36 < 2^32\<close>, reading the header
  of the byte sequence the encoder produced recovers exactly the original sample rate,
  channel count and bits per sample, and a data-chunk size equal to \<open>L\<close>.
\<close>

theorem header_round_trip:
  assumes "valid_parameters ap" and "sampleRateHz ap < 2147483648"
    and "int (length pcm) + 36 < 4294967296"
  shows "Option.bind (produced output_file (sampleRateHz ap) pcm w) spec_parse_header =
           Some (ap, int (length pcm))"
proof -
  have sr: "0 \<le> sampleRateHz ap" and c: "channelCount ap = 1" "bitsPerSample ap = 16"
    using assms(1) by (simp_all add: valid_parameters_def)
  obtain bs where bs: "produced output_file (sampleRateHz ap) pcm w = Some bs"
    using produced_ok [OF sr assms(2,3)] by blast
  have "spec_parse_header bs =
          Some (\<lparr>sampleRateHz = sampleRateHz ap, channelCount = 1, bitsPerSample = 16\<rparr>,
                int (length pcm))"
    by (rule parse_produced [OF sr assms(2,3) bs])
  moreover have "\<lparr>sampleRateHz = sampleRateHz ap, channelCount = 1, bitsPerSample = 16\<rparr> = ap"
    using c by (cases ap) simp
  ultimately show ?thesis
    by (simp add: bs)
qed

theorem header_round_trip_witness:
  "valid_parameters \<lparr>sampleRateHz = 16000, channelCount = 1, bitsPerSample = 16\<rparr> \<and>
   (16000 :: int) < 2147483648 \<and>
   int (length [1, 0, 255, 127 :: byte]) + 36 < 4294967296 \<and>
   Option.bind (produced ''b.wav'' 16000 [1, 0, 255, 127] world0) spec_parse_header =
     Some (\<lparr>sampleRateHz = 16000, channelCount = 1, bitsPerSample = 16\<rparr>, 4)"
  using header_round_trip [of "\<lparr>sampleRateHz = 16000, channelCount = 1, bitsPerSample = 16\<rparr>"
      "[1, 0, 255, 127]" "''b.wav''" world0]
  by (simp add: valid_parameters_def)

text \<open>
  For the valid sample rate \<open>2^31\<close> the encoder produces no byte sequence, so nothing is
  recovered.
\<close>

theorem header_round_trip_counterexample:
  "valid_parameters \<lparr>sampleRateHz = 2147483648, channelCount = 1, bitsPerSample = 16\<rparr> \<and>
   Option.bind (produced ''b.wav'' 2147483648 [1, 0, 255, 127] world0) spec_parse_header \<noteq>
     Some (\<lparr>sampleRateHz = 2147483648, channelCount = 1, bitsPerSample = 16\<rparr>,
           int (length [1, 0, 255, 127 :: byte]))"
  by (simp add: produced_eq valid_parameters_def wav_writes_def pack_I_def pack_H_def
      file_size_def data_size_def byte_rate_def block_align_def num_channels_def
      bits_per_sample_def)

subsection \<open>Byte rate and block alignment\<close>

text \<open>
  C4. In every byte sequence the encoder produced, the byte-rate field of the fmt chunk
  (offsets 28 to 31) equals sample rate times channel count times bits per sample over 8,
  and the block-alignment field (offsets 32 and 33) equals channel count times bits per
  sample over 8; the sample rate, the channel count and the bits per sample are the values
  stored in their own fields of the same header.
\<close>

theorem byte_rate_and_block_align_fields:
  assumes "produced output_file sample_rate pcm w = Some bs"
  shows "uint_field 28 4 bs = sample_rate * num_channels * (bits_per_sample div 8) \<and>
         uint_field 32 2 bs = num_channels * (bits_per_sample div 8) \<and>
         uint_field 24 4 bs = sample_rate \<and>
         uint_field 22 2 bs = num_channels \<and>
         uint_field 34 2 bs = bits_per_sample"
proof -
  have b: "0 \<le> sample_rate" "sample_rate < 2147483648" "int (length pcm) + 36 < 4294967296"
    using produced_Some_bounds [OF assms] by simp_all
  note f = produced_fields [OF b assms]
  have "uint_field 28 4 bs = sample_rate * 2"
    using b by (intro uint32_field f(10)) simp_all
  moreover have "uint_field 32 2 bs = 2"
    by (intro uint16_field f(11)) simp_all
  moreover have "uint_field 24 4 bs = sample_rate"
    using b by (intro uint32_field f(9)) simp_all
  moreover have "uint_field 22 2 bs = 1"
    by (intro uint16_field f(8)) simp_all
  moreover have "uint_field 34 2 bs = 16"
    by (intro uint16_field f(12)) simp_all
  ultimately show ?thesis
    by (simp add: num_channels_def bits_per_sample_def)
qed


theorem byte_rate_and_block_align_fields_witness:
  "produced ''a.wav'' 8000 [5, 6] world0 =
     Some [82, 73, 70, 70, 38, 0, 0, 0, 87, 65, 86, 69, 102, 109, 116, 32, 16, 0, 0, 0,
           1, 0, 1, 0, 64, 31, 0, 0, 128, 62, 0, 0, 2, 0, 16, 0, 100, 97, 116, 97,
           2, 0, 0, 0, 5, 6] \<and>
   uint_field 28 4
        [82, 73, 70, 70, 38, 0, 0, 0, 87, 65, 86, 69, 102, 109, 116, 32, 16, 0, 0, 0,
           1, 0, 1, 0, 64, 31, 0, 0, 128, 62, 0, 0, 2, 0, 16, 0, 100, 97, 116, 97,
           2, 0, 0, 0, 5, 6] = 16000 \<and>
   uint_field 32 2
        [82, 73, 70, 70, 38, 0, 0, 0, 87, 65, 86, 69, 102, 109, 116, 32, 16, 0, 0, 0,
           1, 0, 1, 0, 64, 31, 0, 0, 128, 62, 0, 0, 2, 0, 16, 0, 100, 97, 116, 97,
           2, 0, 0, 0, 5, 6] = 2"
proof -
  have h: "produced ''a.wav'' 8000 [5, 6] world0 =
     Some [82, 73, 70, 70, 38, 0, 0, 0, 87, 65, 86, 69, 102, 109, 116, 32, 16, 0, 0, 0,
           1, 0, 1, 0, 64, 31, 0, 0, 128, 62, 0, 0, 2, 0, 16, 0, 100, 97, 116, 97,
           2, 0, 0, 0, 5, 6]"
    by (simp add: produced_eq wav_writes_def pack_I_def pack_H_def file_size_def data_size_def
        byte_rate_def block_align_def num_channels_def bits_per_sample_def ascii_def
        le_bytes_4 le_bytes_2 spec_uint32_le_def spec_uint16_le_def)
  show ?thesis
    using byte_rate_and_block_align_fields [OF h] h
    by (simp add: num_channels_def bits_per_sample_def)
qed

subsection \<open>The empty buffer\<close>




subsection \<open>No alignment precondition\<close>



subsection \<open>Failures of the speech request\<close>

lemma main_eq:
  "fst (main env argv w) =
     (if fst (generate_wav env (main_text argv) (main_output_file argv) 44100 w) = Inr True
      then 0 else 1)"
  "snd (main env argv w) = snd (generate_wav env (main_text argv) (main_output_file argv) 44100 w)"
  by (auto simp: main_def split: prod.splits sum.splits)

lemma generate_wav_transport:
  assumes "requests_post env (GOOGLE_TTS_URL env) (make_request_data t sr) = Inl e"
  shows "generate_wav env t out sr w = (Inl e, log_call CallPost w)"
  using assms by (simp add: generate_wav_def)

lemma generate_wav_status:
  assumes "requests_post env (GOOGLE_TTS_URL env) (make_request_data t sr) = Inr r"
    and "status_code r \<noteq> 200"
  shows "generate_wav env t out sr w = (Inr False, log_call CallPost w)"
  using assms by (simp add: generate_wav_def)

lemma lacking_body:
  assumes "\<not> has_field ''audioContent'' j"
  shows "py_in ''audioContent'' j = Inr False \<or> (\<exists>e. py_in ''audioContent'' j = Inl e) \<or>
         (py_in ''audioContent'' j = Inr True \<and> (\<exists>e. py_getitem j ''audioContent'' = Inl e))"
  using assms by (cases j) auto

lemma generate_wav_lacks:
  assumes "requests_post env (GOOGLE_TTS_URL env) (make_request_data t sr) = Inr r"
    and "status_code r = 200" and "lacks_audioContent r"
  shows "fst (generate_wav env t out sr w) \<noteq> Inr True"
    and "snd (generate_wav env t out sr w) = log_call CallJson (log_call CallPost w)"
proof -
  show "fst (generate_wav env t out sr w) \<noteq> Inr True"
  proof (cases "json_body r")
    case (Inl e)
    then show ?thesis using assms(1,2) by (simp add: generate_wav_def)
  next
    case (Inr j)
    then have "\<not> has_field ''audioContent'' j"
      using assms(3) by (simp add: lacks_audioContent_def)
    from lacking_body [OF this] show ?thesis
      using assms(1,2) Inr by (auto simp: generate_wav_def)
  qed
  show "snd (generate_wav env t out sr w) = log_call CallJson (log_call CallPost w)"
  proof (cases "json_body r")
    case (Inl e)
    then show ?thesis using assms(1,2) by (simp add: generate_wav_def)
  next
    case (Inr j)
    then have "\<not> has_field ''audioContent'' j"
      using assms(3) by (simp add: lacks_audioContent_def)
    from lacking_body [OF this] show ?thesis
      using assms(1,2) Inr by (auto simp: generate_wav_def)
  qed
qed

text \<open>
  C5. For every response with status 200 whose body lacks the \<^verbatim>\<open>audioContent\<close> field
  (a JSON object without the key, any other JSON value, or a body that is not JSON), the
  function signals failure by returning \<^verbatim>\<open>False\<close> or raising, the process exits
  with status 1, and no output file is created: the files are unchanged and the only
  library calls made are the request and \<^verbatim>\<open>response.json()\<close>.
\<close>

theorem missing_audioContent_exits_nonzero:
  assumes "requests_post env (GOOGLE_TTS_URL env) (make_request_data (main_text argv) 44100) = Inr r"
    and "status_code r = 200" and "lacks_audioContent r"
  shows "fst (generate_wav env (main_text argv) (main_output_file argv) 44100 w) \<noteq> Inr True \<and>
         fst (main env argv w) = 1 \<and>
         files (snd (main env argv w)) = files w \<and>
         calls (snd (main env argv w)) = calls w @ [CallPost, CallJson]"
  using generate_wav_lacks [OF assms, of "main_output_file argv" w]
  by (simp add: main_eq log_call_def)

theorem missing_audioContent_exits_nonzero_witness:
  "requests_post (fixed_env (Inr response_without_audio))
     (GOOGLE_TTS_URL (fixed_env (Inr response_without_audio)))
     (make_request_data (main_text [''generate_wav.py'']) 44100) = Inr response_without_audio \<and>
   status_code response_without_audio = 200 \<and>
   lacks_audioContent response_without_audio \<and>
   fst (generate_wav (fixed_env (Inr response_without_audio)) (main_text [''generate_wav.py''])
          (main_output_file [''generate_wav.py'']) 44100 world0) \<noteq> Inr True \<and>
   fst (main (fixed_env (Inr response_without_audio)) [''generate_wav.py''] world0) = 1 \<and>
   files (snd (main (fixed_env (Inr response_without_audio)) [''generate_wav.py''] world0)) =
     files world0 \<and>
   calls (snd (main (fixed_env (Inr response_without_audio)) [''generate_wav.py''] world0)) =
     calls world0 @ [CallPost, CallJson]"
  using missing_audioContent_exits_nonzero [of "fixed_env (Inr response_without_audio)"
      "[''generate_wav.py'']" response_without_audio world0]
  by (simp add: fixed_env_def response_without_audio_def lacks_audioContent_def)

text \<open>
  C6. For every response whose status code is not 200, the process exits with status 1;
  the only library call made is the request itself, so neither \<^verbatim>\<open>response.json()\<close>
  nor \<^verbatim>\<open>base64.b64decode\<close> is attempted and the output file is not opened; the files
  are unchanged.
\<close>

theorem non_200_exits_without_decoding:
  assumes "requests_post env (GOOGLE_TTS_URL env) (make_request_data (main_text argv) 44100) = Inr r"
    and "status_code r \<noteq> 200"
  shows "fst (main env argv w) = 1 \<and>
         files (snd (main env argv w)) = files w \<and>
         calls (snd (main env argv w)) = calls w @ [CallPost]"
  using generate_wav_status [OF assms, of "main_output_file argv" w]
  by (simp add: main_eq log_call_def)

theorem non_200_exits_without_decoding_witness:
  "requests_post (fixed_env (Inr response_forbidden))
     (GOOGLE_TTS_URL (fixed_env (Inr response_forbidden)))
     (make_request_data (main_text [''generate_wav.py'', ''Hello'', ''hello.wav'']) 44100) =
       Inr response_forbidden \<and>
   status_code response_forbidden \<noteq> 200 \<and>
   fst (main (fixed_env (Inr response_forbidden)) [''generate_wav.py'', ''Hello'', ''hello.wav'']
          world0) = 1 \<and>
   files (snd (main (fixed_env (Inr response_forbidden))
                 [''generate_wav.py'', ''Hello'', ''hello.wav''] world0)) = files world0 \<and>
   calls (snd (main (fixed_env (Inr response_forbidden))
                 [''generate_wav.py'', ''Hello'', ''hello.wav''] world0)) =
     calls world0 @ [CallPost]"
  using non_200_exits_without_decoding [of "fixed_env (Inr response_forbidden)"
      "[''generate_wav.py'', ''Hello'', ''hello.wav'']" response_forbidden world0]
  by (simp add: fixed_env_def response_forbidden_def)

text \<open>
  C8. In every failure case of the speech request (the call does not complete, the status
  is not 200, or the \<^verbatim>\<open>audioContent\<close> field is absent) the caller of
  \<^verbatim>\<open>generate_wav\<close> receives \<^verbatim>\<open>False\<close> or an exception, never \<^verbatim>\<open>True\<close>, and the
  process ends with exit status 1 and the files unchanged.
\<close>

theorem request_failure_exits_nonzero:
  assumes "request_failed
             (requests_post env (GOOGLE_TTS_URL env) (make_request_data (main_text argv) 44100))"
  shows "fst (generate_wav env (main_text argv) (main_output_file argv) 44100 w) \<noteq> Inr True \<and>
         fst (main env argv w) = 1 \<and>
         files (snd (main env argv w)) = files w"
proof (cases "requests_post env (GOOGLE_TTS_URL env) (make_request_data (main_text argv) 44100)")
  case (Inl e)
  show ?thesis
    using generate_wav_transport [OF Inl, of "main_output_file argv" w]
    by (simp add: main_eq log_call_def)
next
  case (Inr r)
  show ?thesis
  proof (cases "status_code r = 200")
    case False
    show ?thesis
      using generate_wav_status [OF Inr False, of "main_output_file argv" w]
      by (simp add: main_eq log_call_def)
  next
    case True
    then have "lacks_audioContent r"
      using assms Inr by (simp add: request_failed_def)
    from generate_wav_lacks [OF Inr True this, of "main_output_file argv" w] show ?thesis
      by (simp add: main_eq log_call_def)
  qed
qed

theorem request_failure_exits_nonzero_witness:
  "request_failed
     (requests_post (fixed_env (Inl RequestException))
        (GOOGLE_TTS_URL (fixed_env (Inl RequestException)))
        (make_request_data (main_text [''generate_wav.py'']) 44100)) \<and>
   fst (generate_wav (fixed_env (Inl RequestException)) (main_text [''generate_wav.py''])
          (main_output_file [''generate_wav.py'']) 44100 world0) \<noteq> Inr True \<and>
   fst (main (fixed_env (Inl RequestException)) [''generate_wav.py''] world0) = 1 \<and>
   files (snd (main (fixed_env (Inl RequestException)) [''generate_wav.py''] world0)) =
     files world0 \<and>
   request_failed
     (requests_post (fixed_env (Inr response_forbidden))
        (GOOGLE_TTS_URL (fixed_env (Inr response_forbidden)))
        (make_request_data (main_text [''generate_wav.py'']) 44100)) \<and>
   fst (main (fixed_env (Inr response_forbidden)) [''generate_wav.py''] world0) = 1 \<and>
   request_failed
     (requests_post (fixed_env (Inr response_without_audio))
        (GOOGLE_TTS_URL (fixed_env (Inr response_without_audio)))
        (make_request_data (main_text [''generate_wav.py'']) 44100)) \<and>
   fst (main (fixed_env (Inr response_without_audio)) [''generate_wav.py''] world0) = 1"
  using request_failure_exits_nonzero [of "fixed_env (Inl RequestException)"
      "[''generate_wav.py'']" world0]
    request_failure_exits_nonzero [of "fixed_env (Inr response_forbidden)"
      "[''generate_wav.py'']" world0]
    request_failure_exits_nonzero [of "fixed_env (Inr response_without_audio)"
      "[''generate_wav.py'']" world0]
  by (simp add: fixed_env_def request_failed_def response_forbidden_def
      response_without_audio_def lacks_audioContent_def)

subsection \<open>Exit paths of the write block\<close>





end
